theory Spec2Isabelle
  imports Complex_Main
begin

section \<open>Python values\<close>

text \<open>
  The exceptions that the two modules can raise. A function that can raise returns
  \<open>exn + 'a\<close>, with \<open>Inl\<close> for the exception.

  A Python \<open>str\<close> is modelled by the \<open>string\<close> of the bytes of its UTF-8 encoding: a
  character of ASCII is one byte, and a byte from \<open>0x80\<close> on belongs to the encoding of a
  character outside ASCII.

  \<open>Unmodelled\<close> is no exception of Python: it marks a call of the library (\<open>xml.etree\<close>,
  a method of \<open>str\<close>, the \<open>pow\<close> of the C library) whose behaviour this development does
  not follow. No statement below concludes it.
\<close>

datatype exn =
    KeyError string
  | ValueError string
  | TypeError
  | AttributeError
  | SyntaxError
  | ZeroDivisionError
  | Unmodelled

text \<open>\<open>a / b\<close> on floats raises \<open>ZeroDivisionError\<close> when \<open>b\<close> is zero.\<close>

definition truediv :: "real \<Rightarrow> real \<Rightarrow> exn + real" where
  "truediv a b = (if b = 0 then Inl ZeroDivisionError else Inr (a / b))"

text \<open>\<open>a // b\<close> and \<open>a % b\<close> on floats, for a divisor that is not zero.\<close>

definition floordiv :: "real \<Rightarrow> real \<Rightarrow> real" where
  "floordiv a b = of_int \<lfloor>a / b\<rfloor>"

definition pymod :: "real \<Rightarrow> real \<Rightarrow> real" where
  "pymod a b = a - b * of_int \<lfloor>a / b\<rfloor>"

subsection \<open>Format specifications\<close>

definition digit :: "nat \<Rightarrow> char" where
  "digit n = ''0123456789'' ! n"

text \<open>The decimal digits of a natural number, as \<open>str(n)\<close> writes them.\<close>

fun dec :: "nat \<Rightarrow> string" where
  "dec n = (if n < 10 then [digit n] else dec (n div 10) @ [digit (n mod 10)])"

declare dec.simps [simp del]

definition zfill :: "nat \<Rightarrow> string \<Rightarrow> string" where
  "zfill w s = replicate (w - length s) (CHR ''0'') @ s"

text \<open>
  Formatting a float with a fixed number of decimals rounds the exact value to the nearest
  multiple of the last place, a tie going to the even neighbour.
\<close>

definition round_half_even :: "real \<Rightarrow> int" where
  "round_half_even x =
     (let f = \<lfloor>x\<rfloor>; d = x - of_int f
      in if d < 1 / 2 then f else if 1 / 2 < d then f + 1 else if even f then f else f + 1)"

text \<open>The format specification \<open>02d\<close>: an integer, zero-padded to at least two characters.\<close>

definition format_02d :: "int \<Rightarrow> string" where
  "format_02d m =
     (if m < 0 then CHR ''-'' # zfill 1 (dec (nat (- m))) else zfill 2 (dec (nat m)))"

text \<open>
  The format specification \<open>05.2f\<close>: two decimals, zero-padded to at least five
  characters (the sign and the point included).
\<close>

definition format_05_2f :: "real \<Rightarrow> string" where
  "format_05_2f x =
     (let h = nat (round_half_even (\<bar>x\<bar> * 100));
          body = dec (h div 100) @ CHR ''.'' # zfill 2 (dec (h mod 100))
      in if x < 0 then CHR ''-'' # zfill 4 body else zfill 5 body)"

section \<open>\<open>wap_calculator.py\<close>\<close>

subsection \<open>\<open>calculate_points\<close>\<close>

definition calculate_points :: "real \<Rightarrow> real \<Rightarrow> exn + real" where
  "calculate_points basetime input_time =
     (if input_time \<le> 0 then Inr 0
      else case truediv basetime input_time of
             Inl e \<Rightarrow> Inl e
           | Inr q \<Rightarrow> Inr (1000 * q ^ 3))"

subsection \<open>\<open>format_time\<close>\<close>

definition format_time :: "real \<Rightarrow> string" where
  "format_time seconds =
     (if seconds < 0 then ''00:00.00''
      else let minutes = \<lfloor>floordiv seconds 60\<rfloor>;
               remaining_seconds = pymod seconds 60
           in format_02d minutes @ CHR '':'' # format_05_2f remaining_seconds)"

text \<open>
  The form \<open>mm:ss.cc\<close> of the specification: eight characters, two digits, a colon, two
  digits, a point, two digits.
\<close>

definition is_digit :: "char \<Rightarrow> bool" where
  "is_digit c = (c \<in> set ''0123456789'')"

definition mm_ss_cc :: "string \<Rightarrow> bool" where
  "mm_ss_cc str = (length str = 8 \<and>
     is_digit (str ! 0) \<and> is_digit (str ! 1) \<and> str ! 2 = CHR '':'' \<and>
     is_digit (str ! 3) \<and> is_digit (str ! 4) \<and> str ! 5 = CHR ''.'' \<and>
     is_digit (str ! 6) \<and> is_digit (str ! 7))"

section \<open>\<open>xml.etree\<close>: element trees and path lookup\<close>

text \<open>
  An element of \<open>xml.etree.ElementTree\<close>: its tag, its attributes, its text, its tail (the
  text after its end tag) and its children, in document order.
\<close>

datatype element =
  Element (el_tag: string) (el_attrib: "(string \<times> string) list")
    (el_text: "string option") (el_tail: "string option") (el_children: "element list")

text \<open>\<open>elem.get(key)\<close>.\<close>

definition el_get :: "element \<Rightarrow> string \<Rightarrow> string option" where
  "el_get elem key = map_of (el_attrib elem) key"

definition text_or_empty :: "string option \<Rightarrow> string" where
  "text_or_empty t = (case t of None \<Rightarrow> [] | Some s \<Rightarrow> s)"

text \<open>\<open>"".join(elem.itertext())\<close>: the text of the element and of its descendants.\<close>

fun itertext :: "element \<Rightarrow> string" where
  "itertext (Element t a tx ta cs) =
     text_or_empty tx @ concat (map (\<lambda>c. itertext c @ text_or_empty (el_tail c)) cs)"

subsection \<open>The tokenizer of \<open>xml.etree.ElementPath\<close>\<close>

text \<open>
  \<open>xpath_tokenizer_re.findall(path)\<close> scans the path from left to right. At each position
  it takes the first alternative of the regular expression that matches: a quoted literal
  \<open>'[^']*'\<close> or \<open>"[^"]*"\<close>, one of \<open>::\<close>, \<open>//\<close>, \<open>/\<close>, \<open>..\<close>, \<open>()\<close>, \<open>!=\<close>, a single character of
  \<open>/.*:[]()@=\<close>, a tag (an optional \<open>{namespace}\<close> and a run of characters other than
  \<open>/[]()@!=\<close> and white space), or a run of white space; a character that starts none of
  them is skipped. A token is the pair of the operator text and the tag text; one of the
  two is empty.
\<close>

definition is_ascii :: "char \<Rightarrow> bool" where
  "is_ascii c = ((of_char c :: nat) < 128)"

abbreviation (input) sq :: char where
  "sq \<equiv> CHR 0x27"

abbreviation (input) dq :: char where
  "dq \<equiv> CHR 0x22"

text \<open>
  The white space of ASCII. The other white space characters of Unicode lie outside ASCII;
  outside a quoted literal, a character outside ASCII is part of a tag, and
  \<open>xpath_tokenizer\<close> below does not follow such a tag.
\<close>

definition is_space :: "char \<Rightarrow> bool" where
  "is_space c = ((of_char c :: nat) \<in> {9, 10, 11, 12, 13, 28, 29, 30, 31, 32})"

definition tag_char :: "char \<Rightarrow> bool" where
  "tag_char c = (c \<notin> set ''/[]()@!='' \<and> \<not> is_space c)"

type_synonym token = "string \<times> string"

text \<open>
  The token at the head of \<open>c # cs\<close>, if any, and the number of characters of \<open>cs\<close> that
  the match consumes.
\<close>

definition tag_token :: "char \<Rightarrow> string \<Rightarrow> token option \<times> nat" where
  "tag_token c cs =
     (let ns = takeWhile (\<lambda>x. x \<noteq> CHR ''}'') cs;
          after = drop (length ns) cs;
          run = takeWhile tag_char (drop 1 after)
      in if c = CHR ''{'' \<and> ns \<noteq> [] \<and> after \<noteq> [] \<and> run \<noteq> []
         then (Some ([], c # ns @ CHR ''}'' # run), length ns + 1 + length run)
         else if tag_char c
         then (let run' = takeWhile tag_char cs in (Some ([], c # run'), length run'))
         else if is_space c
         then (Some ([], []), length (takeWhile is_space cs))
         else (None, 0))"

definition quoted_token :: "char \<Rightarrow> string \<Rightarrow> token option \<times> nat" where
  "quoted_token q cs =
     (if q \<in> set cs
      then (let body = takeWhile (\<lambda>x. x \<noteq> q) cs in (Some (q # body @ [q], []), length body + 1))
      else tag_token q cs)"

definition pair_token :: "char \<Rightarrow> char \<Rightarrow> token option \<times> nat \<Rightarrow> string \<Rightarrow> token option \<times> nat" where
  "pair_token c d otherwise cs =
     (case cs of x # _ \<Rightarrow> if x = d then (Some ([c, d], []), 1) else otherwise | [] \<Rightarrow> otherwise)"

definition lex1 :: "char \<Rightarrow> string \<Rightarrow> token option \<times> nat" where
  "lex1 c cs =
     (if c = sq \<or> c = dq then quoted_token c cs
      else if c = CHR '':'' then pair_token c (CHR '':'') (Some ([c], []), 0) cs
      else if c = CHR ''/'' then pair_token c (CHR ''/'') (Some ([c], []), 0) cs
      else if c = CHR ''.'' then pair_token c (CHR ''.'') (Some ([c], []), 0) cs
      else if c = CHR ''('' then pair_token c (CHR '')'') (Some ([c], []), 0) cs
      else if c = CHR ''!'' then pair_token c (CHR ''='') (None, 0) cs
      else if c \<in> set ''*[])@='' then (Some ([c], []), 0)
      else tag_token c cs)"

fun xpath_tokens :: "string \<Rightarrow> token list" where
  "xpath_tokens [] = []"
| "xpath_tokens (c # cs) =
     (case lex1 c cs of
        (tok, k) \<Rightarrow> (case tok of None \<Rightarrow> [] | Some t \<Rightarrow> [t]) @ xpath_tokens (drop k cs))"
subsection \<open>Compiling a path\<close>

text \<open>
  \<open>xpath_tokenizer\<close> (without a namespace map) passes the tokens on; it raises
  \<open>SyntaxError\<close> at a tag with a prefix, when the parser asks for that token. A tag with
  a character outside ASCII, which the regular expression may cut at a white space
  character of Unicode, is \<open>Unmodelled\<close>.
\<close>

definition xpath_tokenizer :: "string \<Rightarrow> (exn + token) list" where
  "xpath_tokenizer pattern =
     map (\<lambda>(ttype, tg).
            if \<not> list_all is_ascii tg
            then Inl Unmodelled
            else if tg \<noteq> [] \<and> hd tg \<noteq> CHR ''{'' \<and> CHR '':'' \<in> set tg
            then Inl SyntaxError
            else Inr (ttype, tg))
         (xpath_tokens pattern)"

text \<open>
  The steps of a compiled path that this development follows: the element itself, the
  children with a tag, the elements with an attribute of a given value, and the elements
  with a child of a given tag and text. \<open>NoSelector\<close> stands for the \<open>None\<close> that
  \<open>prepare_predicate\<close> returns when the tokens end before the closing bracket.
\<close>

datatype selector =
    Self
  | Child string
  | AttrEq string string
  | ChildTextEq string string
  | NoSelector

text \<open>\<open>re.match(r"\-?\d+$", s)\<close>.\<close>

definition is_index :: "string \<Rightarrow> bool" where
  "is_index s =
     (let ds = (case s of c # cs \<Rightarrow> if c = CHR ''-'' then cs else s | [] \<Rightarrow> s)
      in ds \<noteq> [] \<and> list_all is_digit ds)"

text \<open>A tag that \<open>findall\<close> compares with the children's tags as it is.\<close>

definition plain_tag :: "string \<Rightarrow> bool" where
  "plain_tag tg = (tg \<noteq> [] \<and> list_all (\<lambda>c. c \<notin> set ''{}*.'') tg)"

text \<open>
  The predicate forms of \<open>prepare_predicate\<close>, by the signature of the tokens between the
  brackets. A signature that is none of the library's raises \<open>SyntaxError\<close>; the forms of
  the library that are not followed here give \<open>Unmodelled\<close>.
\<close>

definition predicate_of :: "string \<Rightarrow> string list \<Rightarrow> exn + selector" where
  "predicate_of signature predicate =
     (if signature = [CHR ''@'', CHR ''-'', CHR ''='', sq]
      then Inr (AttrEq (predicate ! 1) (last predicate))
      else if signature = [CHR ''-'', CHR ''='', sq] \<and> \<not> is_index (predicate ! 0)
      then (if plain_tag (predicate ! 0)
            then Inr (ChildTextEq (predicate ! 0) (last predicate))
            else Inl Unmodelled)
      else if signature \<in> {[CHR ''@'', CHR ''-''], [CHR ''@'', CHR ''-'', CHR ''!'', CHR ''='', sq],
                [CHR ''-''], [CHR ''.'', CHR ''='', sq], [CHR ''.'', CHR ''!'', CHR ''='', sq],
                ''-()'', ''-()-''}
              \<or> signature = [CHR ''-'', CHR ''!'', CHR ''='', sq] \<and> \<not> is_index (predicate ! 0)
      then Inl Unmodelled
      else Inl SyntaxError)"

text \<open>
  The step that a token starts outside a predicate: \<open>ops[token[0]](next, token)\<close>. An
  operator that is no key of \<open>ops\<close> raises \<open>KeyError\<close>.
\<close>

definition step_of :: "token \<Rightarrow> exn + selector" where
  "step_of token =
     (case token of (ttype, tg) \<Rightarrow>
        if ttype = [] then (if plain_tag tg \<or> tg = [] then Inr (Child tg) else Inl Unmodelled)
        else if ttype = ''.'' then Inr Self
        else if ttype \<in> {''*'', ''..'', ''//''} then Inl Unmodelled
        else Inl (KeyError ttype))"

text \<open>
  The loop of \<open>iterfind\<close> over the tokens, together with the loop of
  \<open>prepare_predicate\<close>. The mode says where the parser stands: before a step, after a
  step (where a \<open>/\<close> is passed over), or inside a predicate with the signature and the
  texts read so far.
\<close>

datatype mode = Before | After | Inside "string list" "string list"

fun compile_tokens :: "mode \<Rightarrow> (exn + token) list \<Rightarrow> selector list \<Rightarrow> exn + selector list" where
  "compile_tokens (Inside sg pr) [] acc = Inr (acc @ [NoSelector])"
| "compile_tokens m [] acc = Inr acc"
| "compile_tokens m (Inl e # ts) acc = Inl e"
| "compile_tokens (Inside sg pr) (Inr (ttype, tg) # ts) acc =
     (if ttype = '']''
      then (case predicate_of (concat sg) pr of
              Inl e \<Rightarrow> Inl e
            | Inr sel \<Rightarrow> compile_tokens After ts (acc @ [sel]))
      else if ttype = [] \<and> tg = [] then compile_tokens (Inside sg pr) ts acc
      else if ttype \<noteq> [] \<and> hd ttype \<in> {sq, dq}
      then compile_tokens (Inside (sg @ [[sq]]) (pr @ [butlast (tl ttype)])) ts acc
      else compile_tokens (Inside (sg @ [if ttype = [] then ''-'' else ttype]) (pr @ [tg])) ts acc)"
| "compile_tokens m (Inr (ttype, tg) # ts) acc =
     (if m = After \<and> ttype = ''/'' then compile_tokens Before ts acc
      else if ttype = ''['' then compile_tokens (Inside [] []) ts acc
      else (case step_of (ttype, tg) of
              Inl e \<Rightarrow> Inl e
            | Inr sel \<Rightarrow> compile_tokens After ts (acc @ [sel])))"

subsection \<open>Selecting elements\<close>

definition select :: "selector \<Rightarrow> element list \<Rightarrow> element list" where
  "select sel result =
     (case sel of
        Self \<Rightarrow> result
      | Child tg \<Rightarrow> concat (map (\<lambda>elem. filter (\<lambda>e. el_tag e = tg) (el_children elem)) result)
      | AttrEq key v \<Rightarrow> filter (\<lambda>elem. el_get elem key = Some v) result
      | ChildTextEq tg v \<Rightarrow>
          filter (\<lambda>elem. list_ex (\<lambda>e. el_tag e = tg \<and> itertext e = v) (el_children elem)) result
      | NoSelector \<Rightarrow> result)"

text \<open>
  \<open>ElementPath.find(elem, path)\<close>: the first element that the compiled path selects from
  \<open>elem\<close>, or \<open>None\<close>. Calling the \<open>None\<close> of an unfinished predicate raises \<open>TypeError\<close>,
  and so does a path without tokens, for which \<open>iterfind\<close> returns \<open>None\<close>.
\<close>

definition iterfind :: "element \<Rightarrow> string \<Rightarrow> exn + element list" where
  "iterfind elem path =
     (let path' = (if path \<noteq> [] \<and> last path = CHR ''/'' then path @ ''*'' else path)
      in if path' \<noteq> [] \<and> hd path' = CHR ''/''
         then Inl SyntaxError
         else case xpath_tokenizer path' of
                [] \<Rightarrow> Inl TypeError
              | ts \<Rightarrow> (case compile_tokens Before ts [] of
                         Inl e \<Rightarrow> Inl e
                       | Inr selectors \<Rightarrow>
                           if NoSelector \<in> set selectors then Inl TypeError
                           else Inr (fold select selectors [elem])))"

text \<open>
  \<open>checkpath\<close> of the C implementation of \<open>Element.find\<close>: a path with none of the
  characters \<open>/*[@.\<close> outside braces is a plain tag, looked up among the children without
  \<open>ElementPath\<close>.
\<close>

fun path_chars :: "bool \<Rightarrow> string \<Rightarrow> bool" where
  "path_chars check [] = False"
| "path_chars check (c # cs) =
     (if c = CHR ''{'' then path_chars False cs
      else if c = CHR ''}'' then path_chars True cs
      else if check \<and> c \<in> set ''/*[@.'' then True
      else path_chars check cs)"

definition checkpath :: "string \<Rightarrow> bool" where
  "checkpath tg =
     ((3 \<le> length tg \<and> hd tg = CHR ''{'' \<and>
         (tg ! 1 = CHR ''}'' \<or> tg ! 1 = CHR ''*'' \<and> tg ! 2 = CHR ''}''))
      \<or> path_chars True tg)"

text \<open>\<open>elem.find(path)\<close>.\<close>

definition find_elem :: "element \<Rightarrow> string \<Rightarrow> exn + element option" where
  "find_elem elem path =
     (if checkpath path
      then (case iterfind elem path of
              Inl e \<Rightarrow> Inl e
            | Inr [] \<Rightarrow> Inr None
            | Inr (e # _) \<Rightarrow> Inr (Some e))
      else Inr (List.find (\<lambda>e. el_tag e = path) (el_children elem)))"
subsection \<open>\<open>find_basetime\<close>\<close>

text \<open>
  The values that reach the functions of the two modules: a string or \<open>None\<close>.
\<close>

datatype pyval = PyStr string | PyNone

text \<open>
  The case mappings of \<open>str\<close> are those of Unicode. This development follows them on the
  characters of ASCII and on two characters outside it: \<open>U+0149\<close> (the bytes \<open>C5 89\<close>), a
  lower-case letter whose upper case and title case are the two characters \<open>U+02BC\<close>
  \<open>U+004E\<close>, and \<open>U+02BC\<close> (the bytes \<open>CA BC\<close>), a letter without case. A string with
  any other character is not followed.
\<close>

definition ascii_upper :: "char \<Rightarrow> char" where
  "ascii_upper c =
     (case map_of (zip ''abcdefghijklmnopqrstuvwxyz'' ''ABCDEFGHIJKLMNOPQRSTUVWXYZ'') c of
        None \<Rightarrow> c | Some u \<Rightarrow> u)"

definition ascii_lower :: "char \<Rightarrow> char" where
  "ascii_lower c =
     (case map_of (zip ''ABCDEFGHIJKLMNOPQRSTUVWXYZ'' ''abcdefghijklmnopqrstuvwxyz'') c of
        None \<Rightarrow> c | Some l \<Rightarrow> l)"

definition u0149 :: string where
  "u0149 = [CHR 0xC5, CHR 0x89]"

definition u02BC :: string where
  "u02BC = [CHR 0xCA, CHR 0xBC]"

text \<open>
  A string mapped character by character: \<open>f\<close> on a character of ASCII, \<open>n\<close> for
  \<open>U+0149\<close>, and \<open>U+02BC\<close> as it is; \<open>None\<close> at any other character.
\<close>

fun case_map :: "(char \<Rightarrow> char) \<Rightarrow> string \<Rightarrow> string \<Rightarrow> string option" where
  "case_map f n [] = Some []"
| "case_map f n (c # cs) =
     (if is_ascii c then map_option (\<lambda>r. f c # r) (case_map f n cs)
      else if c # take 1 cs = u0149 then map_option (\<lambda>r. n @ r) (case_map f n (drop 1 cs))
      else if c # take 1 cs = u02BC then map_option (\<lambda>r. u02BC @ r) (case_map f n (drop 1 cs))
      else None)"

text \<open>\<open>str.upper\<close> and \<open>str.lower\<close>.\<close>

definition upper :: "string \<Rightarrow> exn + string" where
  "upper s = (case case_map ascii_upper (u02BC @ ''N'') s of
                None \<Rightarrow> Inl Unmodelled | Some r \<Rightarrow> Inr r)"

definition lower :: "string \<Rightarrow> exn + string" where
  "lower s = (case case_map ascii_lower u0149 s of
                None \<Rightarrow> Inl Unmodelled | Some r \<Rightarrow> Inr r)"

text \<open>
  \<open>str.capitalize\<close>: the first character in title case, the others in lower case.
\<close>

definition capitalize :: "string \<Rightarrow> exn + string" where
  "capitalize s =
     (case case_map ascii_upper (u02BC @ ''N'') (take (if take 2 s \<in> {u0149, u02BC} then 2 else 1) s) of
        None \<Rightarrow> Inl Unmodelled
      | Some first \<Rightarrow>
          (case lower (drop (if take 2 s \<in> {u0149, u02BC} then 2 else 1) s) of
             Inl e \<Rightarrow> Inl e
           | Inr others \<Rightarrow> Inr (first @ others)))"

text \<open>A method of \<open>str\<close> called on a value: \<open>None\<close> has no such attribute.\<close>

definition str_method :: "(string \<Rightarrow> exn + 'a) \<Rightarrow> pyval \<Rightarrow> exn + 'a" where
  "str_method f v = (case v of PyStr s \<Rightarrow> f s | PyNone \<Rightarrow> Inl AttributeError)"

text \<open>A value in an f-string: \<open>None\<close> is written \<open>None\<close>.\<close>

definition format_value :: "pyval \<Rightarrow> string" where
  "format_value v = (case v of PyStr s \<Rightarrow> s | PyNone \<Rightarrow> ''None'')"

definition query :: "string \<Rightarrow> string \<Rightarrow> string \<Rightarrow> string" where
  "query c g s =
     ''./course[@type='' @ [sq] @ c @ [sq] @ '']/gender[@name='' @ [sq] @ g @ [sq] @
     '']/event[stroke='' @ [sq] @ s @ [sq] @ '']''"

text \<open>
  \<open>float(x)\<close> of a text: \<open>TypeError\<close> for \<open>None\<close>, and for a string what the built-in
  conversion \<open>float_of_str\<close> gives, \<open>ValueError\<close> or the number. The conversion of strings
  is a parameter of the model.
\<close>

definition float_of :: "(string \<Rightarrow> exn + real) \<Rightarrow> string option \<Rightarrow> exn + real" where
  "float_of float_of_str x = (case x of None \<Rightarrow> Inl TypeError | Some s \<Rightarrow> float_of_str s)"

definition find_basetime ::
  "(string \<Rightarrow> exn + real) \<Rightarrow> element \<Rightarrow> pyval \<Rightarrow> pyval \<Rightarrow> pyval \<Rightarrow> exn + real option" where
  "find_basetime float_of_str xml_root course gender stroke =
     (case str_method upper course of
        Inl e \<Rightarrow> Inl e
      | Inr c \<Rightarrow>
     (case str_method capitalize gender of
        Inl e \<Rightarrow> Inl e
      | Inr g \<Rightarrow>
     (case find_elem xml_root (query c g (format_value stroke)) of
        Inl e \<Rightarrow> Inl e
      | Inr None \<Rightarrow> Inr None
      | Inr (Some event_node) \<Rightarrow>
     (case find_elem event_node ''basetime_seconds'' of
        Inl e \<Rightarrow> Inl e
      | Inr None \<Rightarrow> Inr None
      | Inr (Some basetime_node) \<Rightarrow>
     (case float_of float_of_str (el_text basetime_node) of
        Inl e \<Rightarrow> Inl e
      | Inr v \<Rightarrow> Inr (Some v))))))"

text \<open>
  The events that the path of \<open>find_basetime\<close> selects for a course type, a gender name
  and a stroke, in document order: the \<open>event\<close> children, with a \<open>stroke\<close> child of that
  text, of the \<open>gender\<close> children with that name of the \<open>course\<close> children with that type.
\<close>

definition events :: "element \<Rightarrow> string \<Rightarrow> string \<Rightarrow> string \<Rightarrow> element list" where
  "events xml_root c g s =
     select (ChildTextEq ''stroke'' s) (select (Child ''event'')
       (select (AttrEq ''name'' g) (select (Child ''gender'')
         (select (AttrEq ''type'' c) (select (Child ''course'') [xml_root])))))"

text \<open>
  The same events in the words of the specification: the entries of the table for a
  course type, a gender name and a stroke, each compared as an exact string.
\<close>

definition table_events :: "element \<Rightarrow> string \<Rightarrow> string \<Rightarrow> string \<Rightarrow> element list" where
  "table_events xml_root c g s =
     [ev. co \<leftarrow> el_children xml_root, el_tag co = ''course'', el_get co ''type'' = Some c,
          ge \<leftarrow> el_children co, el_tag ge = ''gender'', el_get ge ''name'' = Some g,
          ev \<leftarrow> el_children ge, el_tag ev = ''event'',
          list_ex (\<lambda>e. el_tag e = ''stroke'' \<and> itertext e = s) (el_children ev)]"

text \<open>
  The base time of an entry: the number that its first \<open>basetime_seconds\<close> child holds,
  \<open>None\<close> without such a child, and the exception of \<open>float\<close> when the text is no number.
\<close>

definition basetime_of :: "(string \<Rightarrow> exn + real) \<Rightarrow> element \<Rightarrow> exn + real option" where
  "basetime_of float_of_str event_node =
     (case List.find (\<lambda>e. el_tag e = ''basetime_seconds'') (el_children event_node) of
        None \<Rightarrow> Inr None
      | Some basetime_node \<Rightarrow>
          (case float_of float_of_str (el_text basetime_node) of
             Inl e \<Rightarrow> Inl e
           | Inr v \<Rightarrow> Inr (Some v)))"

text \<open>The tokens of the path, when the three values hold no apostrophe.\<close>

definition query_tokens :: "string \<Rightarrow> string \<Rightarrow> string \<Rightarrow> token list" where
  "query_tokens c g s =
     [(''.'', []), (''/'', []), ([], ''course''), (''['', []), (''@'', []), ([], ''type''),
      (''='', []), (sq # c @ [sq], []), ('']'', []),
      (''/'', []), ([], ''gender''), (''['', []), (''@'', []), ([], ''name''),
      (''='', []), (sq # g @ [sq], []), ('']'', []),
      (''/'', []), ([], ''event''), (''['', []), ([], ''stroke''),
      (''='', []), (sq # s @ [sq], []), ('']'', [])]"

text \<open>
  A table with one entry, as the end-to-end example of the specification has it:
  \<open>(SCM, Men, 50m Freestyle)\<close> with the base time \<open>21.32\<close>.
\<close>

definition example_table :: element where
  "example_table =
     Element ''basetimes'' [] None None
       [Element ''course'' [(''type'', ''SCM'')] None None
          [Element ''gender'' [(''name'', ''Men'')] None None
             [Element ''event'' [] None None
                [Element ''stroke'' [] (Some ''50m Freestyle'') None [],
                 Element ''basetime_seconds'' [] (Some ''21.32'') None []]]]]"

section \<open>\<open>main_simulator.py\<close>\<close>

text \<open>
  A row of \<open>csv.DictReader\<close>: a dictionary from field names to values. A field that the
  line of the file does not reach has the value \<open>None\<close>; a field whose column the header
  does not have is no key of the dictionary.
\<close>

type_synonym row = "string \<rightharpoonup> pyval"

text \<open>
  The built-in functions that the loop relies on and that are parameters of the model:
  \<open>float\<close> of a string, and \<open>repr\<close> of a string.
\<close>

record builtins =
  float_str :: "string \<Rightarrow> exn + real"
  repr_str :: "string \<Rightarrow> string"

definition bind_exn :: "exn + 'a \<Rightarrow> ('a \<Rightarrow> exn + 'b) \<Rightarrow> exn + 'b" where
  "bind_exn x f = (case x of Inl e \<Rightarrow> Inl e | Inr v \<Rightarrow> f v)"

text \<open>\<open>row[key]\<close>.\<close>

definition getitem :: "row \<Rightarrow> string \<Rightarrow> exn + pyval" where
  "getitem r key = (case r key of None \<Rightarrow> Inl (KeyError key) | Some v \<Rightarrow> Inr v)"

text \<open>
  The white space characters of Unicode outside ASCII, in UTF-8: \<open>U+0085\<close>, \<open>U+00A0\<close>,
  \<open>U+1680\<close>, \<open>U+2000\<close> to \<open>U+200A\<close>, \<open>U+2028\<close>, \<open>U+2029\<close>, \<open>U+202F\<close>, \<open>U+205F\<close> and \<open>U+3000\<close>.
\<close>

definition space2 :: "string \<Rightarrow> bool" where
  "space2 s = (s \<in> {[CHR 0xC2, CHR 0x85], [CHR 0xC2, CHR 0xA0]})"

definition space3 :: "string \<Rightarrow> bool" where
  "space3 s =
     (case s of
        [a, b, c] \<Rightarrow>
          a = CHR 0xE1 \<and> b = CHR 0x9A \<and> c = CHR 0x80 \<or>
          a = CHR 0xE2 \<and> b = CHR 0x80 \<and>
            ((0x80 :: nat) \<le> of_char c \<and> (of_char c :: nat) \<le> 0x8A \<or>
             c \<in> {CHR 0xA8, CHR 0xA9, CHR 0xAF}) \<or>
          a = CHR 0xE2 \<and> b = CHR 0x81 \<and> c = CHR 0x9F \<or>
          a = CHR 0xE3 \<and> b = CHR 0x80 \<and> c = CHR 0x80
      | _ \<Rightarrow> False)"

text \<open>
  \<open>str.strip\<close>: white space removed at both ends. \<open>lstrip\<close> removes it at the head;
  \<open>rstrip_rev\<close> removes it at the head of the reversed string.
\<close>

fun lstrip :: "string \<Rightarrow> string" where
  "lstrip [] = []"
| "lstrip (c # cs) =
     (if is_space c then lstrip cs
      else if space2 (c # take 1 cs) then lstrip (drop 1 cs)
      else if space3 (c # take 2 cs) then lstrip (drop 2 cs)
      else c # cs)"

fun rstrip_rev :: "string \<Rightarrow> string" where
  "rstrip_rev [] = []"
| "rstrip_rev (c # cs) =
     (if is_space c then rstrip_rev cs
      else if space2 (rev (c # take 1 cs)) then rstrip_rev (drop 1 cs)
      else if space3 (rev (c # take 2 cs)) then rstrip_rev (drop 2 cs)
      else c # cs)"

definition strip :: "string \<Rightarrow> string" where
  "strip s = rev (rstrip_rev (rev (lstrip s)))"

text \<open>\<open>float(x)\<close> of a value.\<close>

definition float_val :: "builtins \<Rightarrow> pyval \<Rightarrow> exn + real" where
  "float_val py v = (case v of PyNone \<Rightarrow> Inl TypeError | PyStr s \<Rightarrow> float_str py s)"

text \<open>\<open>str(e)\<close> of the exceptions that the loop catches.\<close>

definition str_exn :: "builtins \<Rightarrow> exn \<Rightarrow> string" where
  "str_exn py e = (case e of KeyError k \<Rightarrow> repr_str py k | ValueError m \<Rightarrow> m | _ \<Rightarrow> [])"

text \<open>An entry of \<open>processed_results\<close>.\<close>

record scored =
  r_name :: string
  r_surname :: string
  r_stroke :: pyval
  r_time :: string
  r_points :: real

text \<open>
  The state of the loop. An entry of \<open>failed_rows\<close> is the string
  \<open>Row {row_num}: Invalid data - {e} -> {row}\<close>; the model keeps the text before the row
  and the row itself, in place of the \<open>repr\<close> of the dictionary.
\<close>

record state =
  total_points :: real
  processed_results :: "scored list"
  failed_rows :: "(string \<times> row) list"

definition failed_text :: "builtins \<Rightarrow> nat \<Rightarrow> exn \<Rightarrow> string" where
  "failed_text py row_num e = ''Row '' @ dec row_num @ '': Invalid data - '' @ str_exn py e @ '' -> ''"

text \<open>The body of the inner \<open>try\<close>, for one row.\<close>

definition process_row :: "builtins \<Rightarrow> element \<Rightarrow> row \<Rightarrow> state \<Rightarrow> exn + state" where
  "process_row py xml_root r st =
     bind_exn (getitem r ''name'') (\<lambda>name_v.
     bind_exn (str_method (\<lambda>s. Inr (strip s)) name_v) (\<lambda>name.
     bind_exn (getitem r ''surname'') (\<lambda>surname_v.
     bind_exn (str_method (\<lambda>s. Inr (strip s)) surname_v) (\<lambda>surname.
     bind_exn (getitem r ''course'') (\<lambda>course.
     bind_exn (getitem r ''gender'') (\<lambda>gender.
     bind_exn (getitem r ''stroke'') (\<lambda>stroke.
     bind_exn (getitem r ''time'') (\<lambda>time_v.
     bind_exn (float_val py time_v) (\<lambda>time.
     if name = [] \<or> surname = [] then Inl (ValueError ''Name or surname is missing'')
     else
     bind_exn (find_basetime (float_str py) xml_root course gender stroke) (\<lambda>basetime.
     case basetime of
       None \<Rightarrow> Inl (ValueError ''Base time not found for event.'')
     | Some b \<Rightarrow>
     bind_exn (calculate_points b time) (\<lambda>points.
     Inr (st\<lparr>total_points := total_points st + points,
             processed_results := processed_results st @
               [\<lparr>r_name = name, r_surname = surname, r_stroke = stroke,
                 r_time = format_time time, r_points = points\<rparr>]\<rparr>))))))))))))"

text \<open>\<open>except (KeyError, ValueError)\<close>.\<close>

definition caught :: "exn \<Rightarrow> bool" where
  "caught e = (case e of KeyError k \<Rightarrow> True | ValueError m \<Rightarrow> True | _ \<Rightarrow> False)"

text \<open>
  The loop \<open>for row_num, row in enumerate(reader, 2)\<close>. An exception that the inner
  \<open>try\<close> does not catch leaves the loop, and \<open>main\<close> with it.
\<close>

fun main_loop :: "builtins \<Rightarrow> element \<Rightarrow> nat \<Rightarrow> row list \<Rightarrow> state \<Rightarrow> exn + state" where
  "main_loop py xml_root row_num [] st = Inr st"
| "main_loop py xml_root row_num (r # rows) st =
     (case process_row py xml_root r st of
        Inr st' \<Rightarrow> main_loop py xml_root (Suc row_num) rows st'
      | Inl e \<Rightarrow>
          if caught e
          then main_loop py xml_root (Suc row_num) rows
                 (st\<lparr>failed_rows := failed_rows st @ [(failed_text py row_num e, r)]\<rparr>)
          else Inl e)"

text \<open>The rows of the file, processed from the empty state.\<close>

definition main :: "builtins \<Rightarrow> element \<Rightarrow> row list \<Rightarrow> exn + state" where
  "main py xml_root rows =
     main_loop py xml_root 2 rows \<lparr>total_points = 0, processed_results = [], failed_rows = []\<rparr>"

text \<open>
  Rows for the examples. \<open>good_row\<close> is the line
  \<open>Anna,Rossi,SCM,Men,50m Freestyle,20.16\<close>. \<open>short_row\<close> is the line
  \<open>Anna,Rossi,SCM,Men,50m Freestyle\<close>, which ends before the time: \<open>DictReader\<close> gives
  the field \<open>time\<close> the value \<open>None\<close>. \<open>apostrophe_row\<close> names a stroke that the table
  does not have. \<open>missing_time_row\<close> is \<open>good_row\<close> under a header without the column
  \<open>time\<close>. \<open>cut_row\<close> is the line \<open>Anna\<close> under the header \<open>name,surname\<close>: the
  dictionary has no key for the other four fields, and \<open>surname\<close> is \<open>None\<close>.
\<close>

definition good_row :: row where
  "good_row = [''name'' \<mapsto> PyStr ''Anna'', ''surname'' \<mapsto> PyStr ''Rossi'',
     ''course'' \<mapsto> PyStr ''SCM'', ''gender'' \<mapsto> PyStr ''Men'',
     ''stroke'' \<mapsto> PyStr ''50m Freestyle'', ''time'' \<mapsto> PyStr ''20.16'']"

definition short_row :: row where
  "short_row = [''name'' \<mapsto> PyStr ''Anna'', ''surname'' \<mapsto> PyStr ''Rossi'',
     ''course'' \<mapsto> PyStr ''SCM'', ''gender'' \<mapsto> PyStr ''Men'',
     ''stroke'' \<mapsto> PyStr ''50m Freestyle'', ''time'' \<mapsto> PyNone]"

definition apostrophe_row :: row where
  "apostrophe_row = [''name'' \<mapsto> PyStr ''Anna'', ''surname'' \<mapsto> PyStr ''Rossi'',
     ''course'' \<mapsto> PyStr ''SCM'', ''gender'' \<mapsto> PyStr ''Men'',
     ''stroke'' \<mapsto> PyStr (''Men'' @ [sq] @ ''s 50m Freestyle''), ''time'' \<mapsto> PyStr ''20.16'']"

definition missing_time_row :: row where
  "missing_time_row = good_row(''time'' := None)"

definition cut_row :: row where
  "cut_row = [''name'' \<mapsto> PyStr ''Anna'', ''surname'' \<mapsto> PyNone]"

text \<open>
  Built-in functions for the examples: \<open>float\<close> on the two numerals that the examples
  use, and \<open>repr\<close> on strings without quotes or escapes.
\<close>

definition example_py :: builtins where
  "example_py = \<lparr>float_str = (\<lambda>s. if s = ''21.32'' then Inr 21.32 else if s = ''20.16'' then Inr 20.16
                                  else Inl (ValueError ''could not convert string to float'')),
                 repr_str = (\<lambda>s. [sq] @ s @ [sq])\<rparr>"

subsection \<open>The batch as the specification describes it\<close>

text \<open>
  The outcome of the body of the \<open>try\<close> for one row, apart from the state: the exception
  that it raises, or the entry that it appends to \<open>processed_results\<close>.
\<close>

definition row_result :: "builtins \<Rightarrow> element \<Rightarrow> row \<Rightarrow> exn + scored" where
  "row_result py xml_root r =
     (case process_row py xml_root r \<lparr>total_points = 0, processed_results = [], failed_rows = []\<rparr> of
        Inl e \<Rightarrow> Inl e
      | Inr st \<Rightarrow> Inr (last (processed_results st)))"

text \<open>
  The scored results and the rejected rows of a batch whose first row has the number
  \<open>row_num\<close>, each in input order, every rejected row with its reason.
\<close>

fun batch_spec ::
  "builtins \<Rightarrow> element \<Rightarrow> nat \<Rightarrow> row list \<Rightarrow> scored list \<times> (string \<times> row) list" where
  "batch_spec py xml_root row_num [] = ([], [])"
| "batch_spec py xml_root row_num (r # rows) =
     (case batch_spec py xml_root (Suc row_num) rows of
        (results, failed) \<Rightarrow>
          (case row_result py xml_root r of
             Inr entry \<Rightarrow> (entry # results, failed)
           | Inl e \<Rightarrow> (results, (failed_text py row_num e, r) # failed)))"

text \<open>The six fields that the loop reads.\<close>

definition required_fields :: "string list" where
  "required_fields = [''name'', ''surname'', ''course'', ''gender'', ''stroke'', ''time'']"
section \<open>Digits and rounding\<close>

lemma dec_lt10: "n < 10 \<Longrightarrow> dec n = [digit n]"
  by (simp add: dec.simps)

lemma dec_lt100: "10 \<le> n \<Longrightarrow> n < 100 \<Longrightarrow> dec n = [digit (n div 10), digit (n mod 10)]"
  by (subst dec.simps) (simp add: dec_lt10)

lemma zfill2_dec: "n < 100 \<Longrightarrow> zfill 2 (dec n) = [digit (n div 10), digit (n mod 10)]"
proof (cases "n < 10")
  case True
  then show ?thesis by (simp add: zfill_def digit_def dec_lt10)
next
  case False
  assume "n < 100"
  with False show ?thesis by (simp add: zfill_def dec_lt100)
qed

lemma is_digit_digit: "n < 10 \<Longrightarrow> is_digit (digit n)"
proof -
  assume "n < 10"
  then have "n \<in> {0, 1, 2, 3, 4, 5, 6, 7, 8, 9}" by auto
  then show ?thesis by (auto simp: is_digit_def digit_def)
qed

lemma round_half_even_le: "x \<le> of_int k \<Longrightarrow> round_half_even x \<le> k"
proof -
  assume a: "x \<le> of_int k"
  have f: "\<lfloor>x\<rfloor> \<le> k" using a by (simp add: floor_le_iff)
  show ?thesis
  proof (cases "x = of_int \<lfloor>x\<rfloor>")
    case True
    then have "round_half_even x = \<lfloor>x\<rfloor>" unfolding round_half_even_def Let_def by simp
    with f show ?thesis by simp
  next
    case False
    then have "of_int \<lfloor>x\<rfloor> < x" using of_int_floor_le [of x] by linarith
    with a have "of_int \<lfloor>x\<rfloor> < (of_int k :: real)" by linarith
    then have "\<lfloor>x\<rfloor> < k" by simp
    moreover have "round_half_even x \<le> \<lfloor>x\<rfloor> + 1" unfolding round_half_even_def Let_def by simp
    ultimately show ?thesis by linarith
  qed
qed

lemma pymod_range: "0 < b \<Longrightarrow> 0 \<le> pymod a b \<and> pymod a b < b"
proof -
  assume b: "0 < b"
  have "of_int \<lfloor>a / b\<rfloor> \<le> a / b" by (rule of_int_floor_le)
  then have "b * of_int \<lfloor>a / b\<rfloor> \<le> b * (a / b)" using b by (intro mult_left_mono) simp_all
  then have 1: "b * of_int \<lfloor>a / b\<rfloor> \<le> a" using b by simp
  have "a / b < of_int \<lfloor>a / b\<rfloor> + 1" by linarith
  then have "b * (a / b) < b * (of_int \<lfloor>a / b\<rfloor> + 1)" using b by (intro mult_strict_left_mono) simp_all
  then have 2: "a < b * (of_int \<lfloor>a / b\<rfloor> + 1)" using b by simp
  show ?thesis unfolding pymod_def using 1 2 by (simp add: algebra_simps)
qed

lemma zfill5_seconds:
  assumes "k < 100"
  shows "zfill 5 (dec k @ CHR ''.'' # [a, b]) = zfill 2 (dec k) @ CHR ''.'' # [a, b]"
proof (cases "k < 10")
  case True
  then show ?thesis by (simp add: zfill_def dec_lt10)
next
  case False
  with assms show ?thesis by (simp add: zfill_def dec_lt100)
qed

lemma mod_100_div_10: "(h::nat) mod 100 div 10 = h div 10 mod 10"
proof -
  have "h mod (10 * 10) = 10 * (h div 10 mod 10) + h mod 10" by (rule mod_mult2_eq)
  then show ?thesis by simp
qed

lemma div_100_div_10: "(h::nat) div 100 div 10 = h div 1000"
  using div_mult2_eq [of h 100 10] by simp

lemma format_05_2f_digits:
  assumes "0 \<le> x" and "x < 60"
  defines "h \<equiv> nat (round_half_even (100 * x))"
  shows "h \<le> 6000 \<and> format_05_2f x =
           [digit (h div 1000), digit (h div 100 mod 10), CHR ''.'', digit (h div 10 mod 10), digit (h mod 10)]"
proof -
  have "100 * x \<le> of_int 6000" using assms by simp
  then have "round_half_even (100 * x) \<le> 6000" by (rule round_half_even_le)
  then have h: "h \<le> 6000" unfolding h_def by simp
  then have k: "h div 100 < 100" by simp
  have m: "h mod 100 < 100" by simp
  have abs: "\<bar>x\<bar> * 100 = 100 * x" using assms by simp
  have "format_05_2f x = zfill 5 (dec (h div 100) @ CHR ''.'' # zfill 2 (dec (h mod 100)))"
    using assms(1) unfolding format_05_2f_def Let_def h_def abs by simp
  also have "\<dots> = zfill 5 (dec (h div 100) @ CHR ''.'' # [digit (h mod 100 div 10), digit (h mod 100 mod 10)])"
    using zfill2_dec [OF m] by simp
  also have "\<dots> = zfill 2 (dec (h div 100)) @ CHR ''.'' # [digit (h mod 100 div 10), digit (h mod 100 mod 10)]"
    by (rule zfill5_seconds [OF k])
  also have "\<dots> = [digit (h div 100 div 10), digit (h div 100 mod 10), CHR ''.'', digit (h mod 100 div 10), digit (h mod 100 mod 10)]"
    using zfill2_dec [OF k] by simp
  finally have "format_05_2f x = [digit (h div 100 div 10), digit (h div 100 mod 10), CHR ''.'', digit (h mod 100 div 10), digit (h mod 100 mod 10)]" .
  moreover have "h div 100 div 10 = h div 1000" by (rule div_100_div_10)
  moreover have "h mod 100 div 10 = h div 10 mod 10" by (rule mod_100_div_10)
  moreover have "h mod 100 mod 10 = h mod 10" by (simp add: mod_mod_cancel)
  ultimately show ?thesis using h by simp
qed

lemma mm_ss_cc_digits:
  "is_digit a \<Longrightarrow> is_digit b \<Longrightarrow> is_digit c \<Longrightarrow> is_digit d \<Longrightarrow> is_digit e \<Longrightarrow> is_digit f \<Longrightarrow>
   mm_ss_cc [a, b, CHR '':'', c, d, CHR ''.'', e, f]"
  unfolding mm_ss_cc_def by simp

lemma format_time_nonneg:
  assumes "0 \<le> s"
  shows "format_time s = zfill 2 (dec (nat \<lfloor>s / 60\<rfloor>)) @ CHR '':'' # format_05_2f (pymod s 60)"
proof -
  have fl: "0 \<le> \<lfloor>s / 60\<rfloor>" using assms by simp
  show ?thesis using assms fl unfolding format_time_def Let_def floordiv_def format_02d_def by simp
qed

lemma minutes_lt_100:
  assumes "0 \<le> s" and "s < 6000"
  shows "nat \<lfloor>s / 60\<rfloor> < 100"
proof -
  have fl: "0 \<le> \<lfloor>s / 60\<rfloor>" using assms(1) by simp
  have "s / 60 < 100" using assms(2) by simp
  then have fl100: "\<lfloor>s / 60\<rfloor> < 100" using floor_less_iff [of "s / 60" 100] by simp
  show ?thesis using fl fl100 by linarith
qed

lemma seconds_field:
  assumes "0 \<le> s"
  defines "h \<equiv> nat (round_half_even (100 * (s - 60 * real (nat \<lfloor>s / 60\<rfloor>))))"
  shows "h \<le> 6000 \<and> format_05_2f (pymod s 60) =
      [digit (h div 1000), digit (h div 100 mod 10), CHR ''.'', digit (h div 10 mod 10), digit (h mod 10)]"
proof -
  have fl: "0 \<le> \<lfloor>s / 60\<rfloor>" using assms(1) by simp
  have rm: "real (nat \<lfloor>s / 60\<rfloor>) = of_int \<lfloor>s / 60\<rfloor>" using fl by simp
  have pm: "pymod s 60 = s - 60 * real (nat \<lfloor>s / 60\<rfloor>)" unfolding pymod_def rm by simp
  have rng: "0 \<le> pymod s 60" "pymod s 60 < 60" using pymod_range [of 60 s] by simp_all
  have "nat (round_half_even (100 * pymod s 60)) \<le> 6000 \<and> format_05_2f (pymod s 60) =
      [digit (nat (round_half_even (100 * pymod s 60)) div 1000),
       digit (nat (round_half_even (100 * pymod s 60)) div 100 mod 10), CHR ''.'',
       digit (nat (round_half_even (100 * pymod s 60)) div 10 mod 10),
       digit (nat (round_half_even (100 * pymod s 60)) mod 10)]"
    by (rule format_05_2f_digits [OF rng])
  moreover have "nat (round_half_even (100 * pymod s 60)) = h" unfolding h_def pm ..
  ultimately show ?thesis by (simp only:)
qed


section \<open>Points\<close>

text \<open>
  Claim C4. For every base time \<open>b\<close> and every input time \<open>t \<le> 0\<close>,
  \<open>calculate_points b t\<close> returns \<open>0.0\<close>: it raises nothing, and in particular no
  \<open>ZeroDivisionError\<close>.
\<close>

theorem calculate_points_nonpositive:
  "t \<le> 0 \<Longrightarrow> calculate_points b t = Inr 0"
  by (simp add: calculate_points_def)

theorem calculate_points_nonpositive_witness:
  "(0::real) \<le> 0 \<and> (- 3 :: real) \<le> 0 \<and>
   calculate_points 25 0 = Inr 0 \<and> calculate_points 25 (- 3) = Inr 0"
  using calculate_points_nonpositive [of 0 25] calculate_points_nonpositive [of "- 3" 25]
  by simp

text \<open>
  Claim C9. For every positive \<open>b\<close>, \<open>calculate_points b b\<close> returns \<open>1000\<close>: a swim in
  exactly the base time scores exactly 1000 points.
\<close>

theorem calculate_points_base_time:
  "0 < b \<Longrightarrow> calculate_points b b = Inr 1000"
  by (simp add: calculate_points_def truediv_def)

theorem calculate_points_base_time_witness:
  "(0::real) < 21.32 \<and> calculate_points 21.32 21.32 = Inr 1000"
  using calculate_points_base_time [of "21.32"] by simp

section \<open>Formatted times\<close>

text \<open>
  Claim C6. \<open>format_time\<close> returns the literal \<open>00:00.00\<close> for every negative input, and
  \<open>format_time 0\<close> is \<open>00:00.00\<close> as well.
\<close>

theorem format_time_negative:
  "(s < 0 \<longrightarrow> format_time s = ''00:00.00'') \<and> format_time 0 = ''00:00.00''"
  by (simp add: format_time_def floordiv_def pymod_def format_02d_def format_05_2f_def
      zfill_def round_half_even_def digit_def dec.simps Let_def)

theorem format_time_negative_witness:
  "(- 1 :: real) < 0 \<and> format_time (- 1) = ''00:00.00'' \<and> format_time 0 = ''00:00.00''"
  using format_time_negative [of "- 1"] by simp

text \<open>
  Claim C5, as amended. For every \<open>s\<close> with \<open>0 \<le> s < 6000\<close> (under 100 minutes) whose
  remainder \<open>s mod 60\<close> rounds to less than \<open>60.00\<close>, \<open>format_time s\<close> has the form
  \<open>mm:ss.cc\<close>: the two digits of \<open>\<lfloor>s / 60\<rfloor>\<close>, a colon, and the remainder \<open>s mod 60\<close> rounded
  to hundredths, with two integer digits and two decimals. In particular
  \<open>format_time 65.5 = 01:05.50\<close> and \<open>format_time 23.4 = 00:23.40\<close>.
\<close>

theorem format_time_fields:
  "(0 \<le> s \<and> s < 6000 \<longrightarrow>
      (let m = nat \<lfloor>s / 60\<rfloor>;
           h = nat (round_half_even (100 * (s - 60 * real m)))
       in h < 6000 \<longrightarrow>
          format_time s =
            [digit (m div 10), digit (m mod 10), CHR '':'',
             digit (h div 1000), digit (h div 100 mod 10), CHR ''.'',
             digit (h div 10 mod 10), digit (h mod 10)] \<and>
          mm_ss_cc (format_time s))) \<and>
   format_time 65.5 = ''01:05.50'' \<and> format_time 23.4 = ''00:23.40''"
proof (intro conjI impI)
  assume r: "0 \<le> s \<and> s < 6000"
  then have s: "0 \<le> s" and lt: "s < 6000" by simp_all
  define m where "m = nat \<lfloor>s / 60\<rfloor>"
  define h where "h = nat (round_half_even (100 * (s - 60 * real m)))"
  have sec: "h \<le> 6000 \<and> format_05_2f (pymod s 60) =
      [digit (h div 1000), digit (h div 100 mod 10), CHR ''.'', digit (h div 10 mod 10), digit (h mod 10)]"
    unfolding h_def m_def by (rule seconds_field [OF s])
  have hb: "h \<le> 6000" using sec by simp
  have m100: "m < 100" unfolding m_def by (rule minutes_lt_100 [OF s lt])
  have z: "zfill 2 (dec m) = [digit (m div 10), digit (m mod 10)]" by (rule zfill2_dec [OF m100])
  have shape: "format_time s =
            [digit (m div 10), digit (m mod 10), CHR '':'',
             digit (h div 1000), digit (h div 100 mod 10), CHR ''.'',
             digit (h div 10 mod 10), digit (h mod 10)]"
    using format_time_nonneg [OF s] sec z unfolding m_def by simp
  have d1: "is_digit (digit (m div 10))" using m100 by (intro is_digit_digit) simp
  have d2: "is_digit (digit (m mod 10))" by (intro is_digit_digit) simp
  have "h div 1000 < 10" using hb by arith
  then have d3: "is_digit (digit (h div 1000))" by (rule is_digit_digit)
  have d4: "is_digit (digit (h div 100 mod 10))" by (intro is_digit_digit) simp
  have d5: "is_digit (digit (h div 10 mod 10))" by (intro is_digit_digit) simp
  have d6: "is_digit (digit (h mod 10))" by (intro is_digit_digit) simp
  have "mm_ss_cc [digit (m div 10), digit (m mod 10), CHR '':'', digit (h div 1000),
      digit (h div 100 mod 10), CHR ''.'', digit (h div 10 mod 10), digit (h mod 10)]"
    using d1 d2 d3 d4 d5 d6 by (rule mm_ss_cc_digits)
  then have form: "mm_ss_cc (format_time s)" unfolding shape .
  show "let m = nat \<lfloor>s / 60\<rfloor>;
           h = nat (round_half_even (100 * (s - 60 * real m)))
       in h < 6000 \<longrightarrow>
          format_time s =
            [digit (m div 10), digit (m mod 10), CHR '':'',
             digit (h div 1000), digit (h div 100 mod 10), CHR ''.'',
             digit (h div 10 mod 10), digit (h mod 10)] \<and>
          mm_ss_cc (format_time s)"
    unfolding Let_def using shape form unfolding h_def m_def by simp
next
  show "format_time 65.5 = ''01:05.50''"
    by (simp add: format_time_def floordiv_def pymod_def format_02d_def format_05_2f_def
        zfill_def round_half_even_def digit_def dec.simps Let_def)
next
  show "format_time 23.4 = ''00:23.40''"
    by (simp add: format_time_def floordiv_def pymod_def format_02d_def format_05_2f_def
        zfill_def round_half_even_def digit_def dec.simps Let_def)
qed

theorem format_time_fields_witness:
  "(0::real) \<le> 3599 \<and> 3599 < (6000::real) \<and>
   nat (round_half_even (100 * (3599 - 60 * real (nat \<lfloor>3599 / 60 :: real\<rfloor>)))) < 6000 \<and>
   format_time 3599 = ''59:59.00'' \<and> mm_ss_cc (format_time 3599)"
  using format_time_fields [of 3599]
  by (simp add: Let_def zfill_def round_half_even_def digit_def dec.simps mm_ss_cc_def is_digit_def)

text \<open>
  The claim as stated, with a two-digit minutes field for every \<open>s \<ge> 0\<close>, fails at 100
  minutes: \<open>format_time 6000\<close> is \<open>100:00.00\<close>, which is not of the form \<open>mm:ss.cc\<close>.
\<close>

theorem format_time_100_minutes:
  "format_time 6000 = ''100:00.00'' \<and> \<not> mm_ss_cc (format_time 6000)"
  by (simp add: format_time_def floordiv_def pymod_def format_02d_def format_05_2f_def
      zfill_def round_half_even_def digit_def dec.simps Let_def mm_ss_cc_def)

section \<open>The path of \<open>find_basetime\<close>\<close>

lemma ascii_upper_sq: "ascii_upper x = sq \<longleftrightarrow> x = sq"
  by (auto simp: ascii_upper_def split: if_splits)

lemma ascii_lower_sq: "ascii_lower x = sq \<longleftrightarrow> x = sq"
  by (auto simp: ascii_lower_def split: if_splits)












lemma select_Self: "select Self result = result"
  by (simp add: select_def)

lemma takeWhile_until:
  assumes "q \<notin> set v"
  shows "takeWhile (\<lambda>x. x \<noteq> q) (v @ q # rest) = v"
proof -
  have "takeWhile (\<lambda>x. x \<noteq> q) (v @ q # rest) = takeWhile (\<lambda>x. x \<noteq> q) v"
    by (rule takeWhile_tail) simp
  also have "\<dots> = v" using assms by (simp add: takeWhile_eq_all_conv) blast
  finally show ?thesis .
qed

lemma xpath_tokens_quoted:
  assumes "sq \<notin> set v"
  shows "xpath_tokens (sq # v @ sq # rest) = (sq # v @ [sq], []) # xpath_tokens rest"
proof -
  have "lex1 sq (v @ sq # rest) = (Some (sq # v @ [sq], []), length v + 1)"
    by (simp add: lex1_def quoted_token_def takeWhile_until [OF assms] Let_def)
  then show ?thesis by simp
qed

lemma xpath_tokens_course:
  "xpath_tokens (''./course[@type='' @ sq # rest) =
     [(''.'', []), (''/'', []), ([], ''course''), (''['', []), (''@'', []), ([], ''type''),
      (''='', [])] @ xpath_tokens (sq # rest)"
  by (simp add: lex1_def pair_token_def tag_token_def tag_char_def is_space_def Let_def)

lemma xpath_tokens_gender:
  "xpath_tokens ('']/gender[@name='' @ sq # rest) =
     [('']'', []), (''/'', []), ([], ''gender''), (''['', []), (''@'', []), ([], ''name''),
      (''='', [])] @ xpath_tokens (sq # rest)"
  by (simp add: lex1_def pair_token_def tag_token_def tag_char_def is_space_def Let_def)

lemma xpath_tokens_event:
  "xpath_tokens ('']/event[stroke='' @ sq # rest) =
     [('']'', []), (''/'', []), ([], ''event''), (''['', []), ([], ''stroke''),
      (''='', [])] @ xpath_tokens (sq # rest)"
  by (simp add: lex1_def pair_token_def tag_token_def tag_char_def is_space_def Let_def)

lemma xpath_tokens_close: "xpath_tokens '']'' = [('']'', [])]"
  by (simp add: lex1_def)

lemma xpath_tokens_query:
  assumes "sq \<notin> set c" and "sq \<notin> set g" and "sq \<notin> set s"
  shows "xpath_tokens (query c g s) = query_tokens c g s"
proof -
  have q: "query c g s =
      ''./course[@type='' @ sq # c @ sq # ('']/gender[@name='' @ sq # g @ sq #
        ('']/event[stroke='' @ sq # s @ sq # '']''))"
    by (simp add: query_def)
  show ?thesis
    unfolding q xpath_tokens_course xpath_tokens_quoted [OF assms(1)] xpath_tokens_gender
      xpath_tokens_quoted [OF assms(2)] xpath_tokens_event xpath_tokens_quoted [OF assms(3)]
      xpath_tokens_close query_tokens_def
    by simp
qed

lemma xpath_tokenizer_query:
  assumes "sq \<notin> set c" and "sq \<notin> set g" and "sq \<notin> set s"
  shows "xpath_tokenizer (query c g s) = map Inr (query_tokens c g s)"
  unfolding xpath_tokenizer_def xpath_tokens_query [OF assms] query_tokens_def
  by (simp add: is_ascii_def)

lemma compile_query_tokens:
  "compile_tokens Before (map Inr (query_tokens c g s)) [] =
     Inr [Self, Child ''course'', AttrEq ''type'' c, Child ''gender'', AttrEq ''name'' g,
          Child ''event'', ChildTextEq ''stroke'' s]"
  by (simp add: query_tokens_def step_of_def predicate_of_def plain_tag_def is_index_def
      is_digit_def)

lemma query_shape:
  "query c g s \<noteq> [] \<and> hd (query c g s) = CHR ''.'' \<and> last (query c g s) = CHR '']'' \<and>
   checkpath (query c g s)"
  by (simp add: query_def checkpath_def)

lemma iterfind_query:
  assumes "sq \<notin> set c" and "sq \<notin> set g" and "sq \<notin> set s"
  shows "iterfind xml_root (query c g s) = Inr (events xml_root c g s)"
proof -
  have tk: "xpath_tokenizer (query c g s) = map Inr (query_tokens c g s)"
    by (rule xpath_tokenizer_query [OF assms])
  have p: "(if query c g s \<noteq> [] \<and> last (query c g s) = CHR ''/'' then query c g s @ ''*''
            else query c g s) = query c g s"
    using query_shape [of c g s] by simp
  have ne: "map Inr (query_tokens c g s) \<noteq> ([] :: (exn + token) list)"
    by (simp add: query_tokens_def)
  then obtain t ts where cons: "map Inr (query_tokens c g s) = (t # ts :: (exn + token) list)"
    by (cases "map Inr (query_tokens c g s) :: (exn + token) list") auto
  have "iterfind xml_root (query c g s) =
      (case compile_tokens Before (t # ts) [] of
         Inl e \<Rightarrow> Inl e
       | Inr selectors \<Rightarrow>
           if NoSelector \<in> set selectors then Inl TypeError
           else Inr (fold select selectors [xml_root]))"
    unfolding iterfind_def Let_def p tk cons using query_shape [of c g s] by simp
  then show ?thesis
    unfolding cons [symmetric] compile_query_tokens by (simp add: events_def select_Self)
qed

lemma find_elem_query:
  assumes "sq \<notin> set c" and "sq \<notin> set g" and "sq \<notin> set s"
  shows "find_elem xml_root (query c g s) =
     Inr (case events xml_root c g s of [] \<Rightarrow> None | e # _ \<Rightarrow> Some e)"
  using query_shape [of c g s] unfolding find_elem_def iterfind_query [OF assms]
  by (simp split: list.splits)

lemma find_elem_basetime_seconds:
  "find_elem event_node ''basetime_seconds'' =
     Inr (List.find (\<lambda>e. el_tag e = ''basetime_seconds'') (el_children event_node))"
  by (simp add: find_elem_def checkpath_def)

lemma events_table_events: "events xml_root c g s = table_events xml_root c g s"
proof -
  have cm: "concat (map f (concat (map h xs))) = concat (map (\<lambda>x. concat (map f (h x))) xs)"
    for f :: "'b \<Rightarrow> 'c list" and h :: "'a \<Rightarrow> 'b list" and xs
    by (induction xs) simp_all
  have fc: "filter P xs = concat (map (\<lambda>x. if P x then [x] else []) xs)"
    for P :: "'a \<Rightarrow> bool" and xs
    by (induction xs) simp_all
  have ci: "concat (map f (if Q then ys else [])) = (if Q then concat (map f ys) else [])"
    for f :: "'a \<Rightarrow> 'b list" and Q ys
    by simp
  show ?thesis
    unfolding events_def table_events_def select_def
    by (simp add: cm fc ci cong: if_cong)
qed

text \<open>
  What \<open>find_basetime\<close> returns for three strings whose normal forms hold no apostrophe:
  the base time of the first event that the path selects, \<open>None\<close> when there is no such
  event or when it has no \<open>basetime_seconds\<close> child, and the exception of \<open>float\<close> when the
  text of that child is no number.
\<close>

lemma find_basetime_events:
  assumes "upper c = Inr c'" and "capitalize g = Inr g'"
    and "sq \<notin> set c'" and "sq \<notin> set g'" and "sq \<notin> set s"
  shows "find_basetime fl xml_root (PyStr c) (PyStr g) (PyStr s) =
     (case table_events xml_root c' g' s of
        [] \<Rightarrow> Inr None
      | event_node # _ \<Rightarrow> basetime_of fl event_node)"
  unfolding find_basetime_def str_method_def format_value_def basetime_of_def
    events_table_events [symmetric]
  by (simp add: assms(1,2) find_elem_query [OF assms(3,4,5)] find_elem_basetime_seconds
      split: list.splits option.splits sum.splits)

section \<open>Base-time lookup\<close>

lemma upper_SCM: "upper ''SCM'' = Inr ''SCM''"
  by (simp add: upper_def ascii_upper_def is_ascii_def)

lemma capitalize_Men: "capitalize ''Men'' = Inr ''Men''"
  by (simp add: capitalize_def lower_def ascii_upper_def ascii_lower_def is_ascii_def
      u0149_def u02BC_def)






lemma apostrophe_raises:
  "find_basetime fl xml_root (PyStr ''SCM'') (PyStr ''Men'')
     (PyStr (''Men'' @ [sq] @ ''s 50m Freestyle'')) = Inl SyntaxError"
proof -
  define p where "p = query ''SCM'' ''Men'' (''Men'' @ [sq] @ ''s 50m Freestyle'')"
  note u = upper_SCM and k = capitalize_Men
  have shape: "p \<noteq> [] \<and> hd p = CHR ''.'' \<and> last p = CHR '']'' \<and> checkpath p"
    unfolding p_def by (rule query_shape)
  have t: "xpath_tokens p =
      [(''.'', []), (''/'', []), ([], ''course''), (''['', []), (''@'', []), ([], ''type''),
       (''='', []), (sq # ''SCM'' @ [sq], []), ('']'', []),
       (''/'', []), ([], ''gender''), (''['', []), (''@'', []), ([], ''name''),
       (''='', []), (sq # ''Men'' @ [sq], []), ('']'', []),
       (''/'', []), ([], ''event''), (''['', []), ([], ''stroke''),
       (''='', []), (sq # ''Men'' @ [sq], []), ([], ''s''), ([], []), ([], ''50m''), ([], []),
       ([], ''Freestyle'' @ [sq]), ('']'', [])]"
    unfolding p_def
    by (simp add: query_def lex1_def quoted_token_def pair_token_def tag_token_def tag_char_def
        is_space_def Let_def)
  obtain tk tks where cons: "xpath_tokenizer p = tk # tks"
    unfolding xpath_tokenizer_def t by (simp add: is_ascii_def)
  have c: "compile_tokens Before (xpath_tokenizer p) [] = Inl SyntaxError"
    unfolding xpath_tokenizer_def t
    by (simp add: step_of_def predicate_of_def plain_tag_def is_index_def is_digit_def
        is_ascii_def)
  have p': "(if p \<noteq> [] \<and> last p = CHR ''/'' then p @ ''*'' else p) = p"
    using shape by simp
  have "iterfind xml_root p = Inl SyntaxError"
    unfolding iterfind_def Let_def p' using shape c unfolding cons by simp
  then have "find_elem xml_root p = Inl SyntaxError"
    unfolding find_elem_def using shape by simp
  then show ?thesis
    unfolding find_basetime_def str_method_def format_value_def p_def by (simp add: u k)
qed

lemma example_events:
  "table_events example_table ''SCM'' ''Men'' ''50m Freestyle'' =
      [Element ''event'' [] None None
         [Element ''stroke'' [] (Some ''50m Freestyle'') None [],
          Element ''basetime_seconds'' [] (Some ''21.32'') None []]]"
  by (simp add: table_events_def example_table_def el_get_def text_or_empty_def)

lemma example_lookup:
  "find_basetime fl example_table (PyStr ''SCM'') (PyStr ''Men'') (PyStr ''50m Freestyle'') =
      (case fl ''21.32'' of Inl e \<Rightarrow> Inl e | Inr v \<Rightarrow> Inr (Some v))"
proof -
  note u = upper_SCM and k = capitalize_Men
  have q: "sq \<notin> set ''SCM''" "sq \<notin> set ''Men''" "sq \<notin> set ''50m Freestyle''"
    by simp_all
  show ?thesis
    unfolding find_basetime_events [OF u k q] example_events
    by (simp add: basetime_of_def float_of_def)
qed

text \<open>
  Claim C2, at a stroke with an apostrophe. The claim says that \<open>find_basetime\<close> returns
  the entry's base time for a triple of the table and \<open>None\<close> for any other, and never
  raises. For the stroke \<open>Men's 50m Freestyle\<close> the f-string builds the path
  \<open>./course[@type='SCM']/gender[@name='Men']/event[stroke='Men's 50m Freestyle']\<close>, in which
  the literal ends at the apostrophe; \<open>ElementPath\<close> rejects the predicate, and
  \<open>find_basetime\<close> raises \<open>SyntaxError\<close>, whatever the table holds. Without an apostrophe
  the lookup does what the claim says: in the example table \<open>50m Freestyle\<close> gives \<open>21.32\<close>
  and \<open>100m Butterfly\<close> gives \<open>None\<close>.
\<close>

theorem find_basetime_apostrophe:
  "find_basetime fl xml_root (PyStr ''SCM'') (PyStr ''Men'')
     (PyStr (''Men'' @ [sq] @ ''s 50m Freestyle'')) = Inl SyntaxError \<and>
   find_basetime (float_str example_py) example_table (PyStr ''SCM'') (PyStr ''Men'')
     (PyStr ''50m Freestyle'') = Inr (Some 21.32) \<and>
   find_basetime (float_str example_py) example_table (PyStr ''SCM'') (PyStr ''Men'')
     (PyStr ''100m Butterfly'') = Inr None"
proof (intro conjI)
  show "find_basetime fl xml_root (PyStr ''SCM'') (PyStr ''Men'')
     (PyStr (''Men'' @ [sq] @ ''s 50m Freestyle'')) = Inl SyntaxError"
    by (rule apostrophe_raises)
next
  show "find_basetime (float_str example_py) example_table (PyStr ''SCM'') (PyStr ''Men'')
     (PyStr ''50m Freestyle'') = Inr (Some 21.32)"
    by (simp add: example_lookup example_py_def)
next
  note u = upper_SCM and k = capitalize_Men
  have q: "sq \<notin> set ''SCM''" "sq \<notin> set ''Men''" "sq \<notin> set ''100m Butterfly''"
    by simp_all
  have miss: "table_events example_table ''SCM'' ''Men'' ''100m Butterfly'' = []"
    by (simp add: table_events_def example_table_def el_get_def text_or_empty_def)
  show "find_basetime (float_str example_py) example_table (PyStr ''SCM'') (PyStr ''Men'')
     (PyStr ''100m Butterfly'') = Inr None"
    unfolding find_basetime_events [OF u k q] miss by simp
qed

lemma process_good_row:
  "process_row example_py example_table good_row st =
     Inr (st\<lparr>total_points := total_points st + 1000 * (21.32 / 20.16) ^ 3,
             processed_results := processed_results st @
               [\<lparr>r_name = ''Anna'', r_surname = ''Rossi'', r_stroke = PyStr ''50m Freestyle'',
                 r_time = ''00:20.16'', r_points = 1000 * (21.32 / 20.16) ^ 3\<rparr>]\<rparr>)"
proof -
  have s: "strip ''Anna'' = ''Anna''" "strip ''Rossi'' = ''Rossi''"
    by (simp_all add: strip_def is_space_def space2_def space3_def)
  have f: "float_str example_py ''20.16'' = Inr 20.16" "float_str example_py ''21.32'' = Inr 21.32"
    by (simp_all add: example_py_def)
  show ?thesis
    unfolding process_row_def
    by (simp add: bind_exn_def getitem_def str_method_def float_val_def good_row_def s f
        example_lookup calculate_points_def truediv_def format_time_def floordiv_def
        pymod_def format_02d_def format_05_2f_def zfill_def round_half_even_def digit_def
        dec.simps Let_def)
qed

lemma process_short_row: "process_row py example_table short_row st = Inl TypeError"
  by (simp add: process_row_def bind_exn_def getitem_def str_method_def float_val_def
      short_row_def)

lemma process_apostrophe_row:
  "process_row example_py example_table apostrophe_row st = Inl SyntaxError"
proof -
  have s: "strip ''Anna'' = ''Anna''" "strip ''Rossi'' = ''Rossi''"
    by (simp_all add: strip_def is_space_def space2_def space3_def)
  have f: "float_str example_py ''20.16'' = Inr 20.16"
    by (simp add: example_py_def)
  show ?thesis
    unfolding process_row_def
    using apostrophe_raises [of "float_str example_py" example_table]
    by (simp add: bind_exn_def getitem_def str_method_def float_val_def apostrophe_row_def s f)
qed

text \<open>
  Claim C3, at a line that ends before the time, and at a stroke with an apostrophe. The
  claim says that a batch of \<open>N\<close> rows of which \<open>K\<close> are rejected gives \<open>N - K\<close> scored
  results and \<open>K\<close> rejected rows, and that no rejection ends the batch. For the two rows
  \<open>short_row, good_row\<close> the conversion \<open>float(None)\<close> raises \<open>TypeError\<close>, which the
  \<open>except\<close> clause does not catch: the loop ends with that exception, and the second row
  is never read. The stroke \<open>Men's 50m Freestyle\<close> ends the loop with \<open>SyntaxError\<close> in the
  same way.
\<close>

theorem main_aborts:
  "main py example_table [short_row, good_row] = Inl TypeError \<and>
   main example_py example_table [apostrophe_row, good_row] = Inl SyntaxError"
proof
  show "main py example_table [short_row, good_row] = Inl TypeError"
    by (simp add: main_def caught_def process_short_row)
next
  show "main example_py example_table [apostrophe_row, good_row] = Inl SyntaxError"
    by (simp add: main_def caught_def process_apostrophe_row)
qed

text \<open>
  Claim C10, at a row without the keys of four fields whose \<open>surname\<close> is \<open>None\<close>. The
  claim says that every row whose mapping lacks a required field is appended to the
  rejected rows, with a reason that holds the row's number, and that the loop goes on. A
  row whose fields are strings is treated so: \<open>missing_time_row\<close> is rejected as row 2 with
  the reason \<open>'time'\<close>, and the next row is scored. For \<open>cut_row\<close> the call
  \<open>row['surname'].strip()\<close> raises \<open>AttributeError\<close> on \<open>None\<close> before any missing key is
  read; the \<open>except\<close> clause does not catch it, and the loop ends.
\<close>

theorem main_cut_row:
  "main py example_table [cut_row, good_row] = Inl AttributeError \<and>
   main example_py example_table [missing_time_row, good_row] =
     Inr \<lparr>total_points = 1000 * (21.32 / 20.16) ^ 3,
          processed_results =
            [\<lparr>r_name = ''Anna'', r_surname = ''Rossi'', r_stroke = PyStr ''50m Freestyle'',
              r_time = ''00:20.16'', r_points = 1000 * (21.32 / 20.16) ^ 3\<rparr>],
          failed_rows =
            [(''Row 2: Invalid data - '' @ [sq] @ ''time'' @ [sq] @ '' -> '', missing_time_row)]\<rparr>"
proof
  have "process_row py example_table cut_row st = Inl AttributeError" for st
    by (simp add: process_row_def bind_exn_def getitem_def str_method_def cut_row_def
        strip_def is_space_def space2_def space3_def)
  then show "main py example_table [cut_row, good_row] = Inl AttributeError"
    by (simp add: main_def caught_def)
next
  have m: "process_row example_py example_table missing_time_row st = Inl (KeyError ''time'')" for st
    by (simp add: process_row_def bind_exn_def getitem_def str_method_def missing_time_row_def
        good_row_def strip_def is_space_def space2_def space3_def)
  show "main example_py example_table [missing_time_row, good_row] =
     Inr \<lparr>total_points = 1000 * (21.32 / 20.16) ^ 3,
          processed_results =
            [\<lparr>r_name = ''Anna'', r_surname = ''Rossi'', r_stroke = PyStr ''50m Freestyle'',
              r_time = ''00:20.16'', r_points = 1000 * (21.32 / 20.16) ^ 3\<rparr>],
          failed_rows =
            [(''Row 2: Invalid data - '' @ [sq] @ ''time'' @ [sq] @ '' -> '', missing_time_row)]\<rparr>"
  proof -
    have t: "failed_text example_py 2 (KeyError ''time'') =
        ''Row 2: Invalid data - '' @ [sq] @ ''time'' @ [sq] @ '' -> ''"
      by (simp add: failed_text_def str_exn_def example_py_def dec.simps digit_def)
    have "main example_py example_table [missing_time_row, good_row] =
        Inr \<lparr>total_points = 1000 * (21.32 / 20.16) ^ 3,
          processed_results =
            [\<lparr>r_name = ''Anna'', r_surname = ''Rossi'', r_stroke = PyStr ''50m Freestyle'',
              r_time = ''00:20.16'', r_points = 1000 * (21.32 / 20.16) ^ 3\<rparr>],
          failed_rows = [(failed_text example_py 2 (KeyError ''time''), missing_time_row)]\<rparr>"
      by (simp add: main_def caught_def m process_good_row)
    then show ?thesis unfolding t .
  qed
qed

section \<open>The loop on rows that raise nothing uncaught\<close>

lemma process_row_result:
  "process_row py xml_root r st =
     (case row_result py xml_root r of
        Inl e \<Rightarrow> Inl e
      | Inr entry \<Rightarrow>
          Inr (st\<lparr>total_points := total_points st + r_points entry,
                  processed_results := processed_results st @ [entry]\<rparr>))"
  unfolding row_result_def process_row_def bind_exn_def
  by (simp split: sum.splits option.splits)

lemma main_loop_batch:
  assumes "list_all (\<lambda>r. case row_result py xml_root r of Inl e \<Rightarrow> caught e | Inr entry \<Rightarrow> True) rows"
  shows "main_loop py xml_root row_num rows st =
     Inr (st\<lparr>total_points :=
               total_points st + sum_list (map r_points (fst (batch_spec py xml_root row_num rows))),
             processed_results :=
               processed_results st @ fst (batch_spec py xml_root row_num rows),
             failed_rows := failed_rows st @ snd (batch_spec py xml_root row_num rows)\<rparr>)"
  using assms
proof (induction rows arbitrary: row_num st)
  case Nil
  show ?case by simp
next
  case (Cons r rows)
  from Cons.prems have rest:
    "list_all (\<lambda>r. case row_result py xml_root r of Inl e \<Rightarrow> caught e | Inr entry \<Rightarrow> True) rows"
    by simp
  obtain results failed where b: "batch_spec py xml_root (Suc row_num) rows = (results, failed)"
    by (cases "batch_spec py xml_root (Suc row_num) rows")
  show ?case
  proof (cases "row_result py xml_root r")
    case (Inl e)
    with Cons.prems have c: "caught e" by simp
    show ?thesis
      using Inl c b Cons.IH [OF rest, of "Suc row_num"]
      by (simp add: process_row_result)
  next
    case (Inr entry)
    show ?thesis
      using Inr b Cons.IH [OF rest, of "Suc row_num"]
      by (simp add: process_row_result add.assoc)
  qed
qed

lemma batch_spec_length:
  "length (fst (batch_spec py xml_root row_num rows)) +
   length (snd (batch_spec py xml_root row_num rows)) = length rows"
proof (induction rows arbitrary: row_num)
  case Nil
  show ?case by simp
next
  case (Cons r rows)
  obtain results failed where b: "batch_spec py xml_root (Suc row_num) rows = (results, failed)"
    by (cases "batch_spec py xml_root (Suc row_num) rows")
  from Cons.IH [of "Suc row_num"] b have "length results + length failed = length rows" by simp
  with b show ?case by (cases "row_result py xml_root r") simp_all
qed

text \<open>
  When no row raises an exception other than \<open>KeyError\<close> and \<open>ValueError\<close>, \<open>main\<close> ends
  with the scored results and the rejected rows of the batch, each in input order, and
  with the sum of the points of the scored results; every row is in one of the two lists.
\<close>

lemma main_batch:
  assumes "list_all (\<lambda>r. case row_result py xml_root r of Inl e \<Rightarrow> caught e | Inr entry \<Rightarrow> True) rows"
  shows "main py xml_root rows =
     Inr \<lparr>total_points = sum_list (map r_points (fst (batch_spec py xml_root 2 rows))),
          processed_results = fst (batch_spec py xml_root 2 rows),
          failed_rows = snd (batch_spec py xml_root 2 rows)\<rparr> \<and>
     length (fst (batch_spec py xml_root 2 rows)) + length (snd (batch_spec py xml_root 2 rows)) =
       length rows"
  unfolding main_def main_loop_batch [OF assms] by (simp add: batch_spec_length)

text \<open>
  A row without one of the six keys, whose name and surname are no \<open>None\<close>, raises
  \<open>KeyError\<close> for a key that it lacks, which the loop catches.
\<close>

lemma missing_field_rejected:
  assumes "\<exists>k \<in> set required_fields. r k = None"
    and "r ''name'' \<noteq> Some PyNone" and "r ''surname'' \<noteq> Some PyNone"
  shows "\<exists>k. r k = None \<and> row_result py xml_root r = Inl (KeyError k)"
proof -
  have "\<exists>k. r k = None \<and>
      process_row py xml_root r \<lparr>total_points = 0, processed_results = [], failed_rows = []\<rparr> =
        Inl (KeyError k)"
    using assms unfolding process_row_def bind_exn_def getitem_def str_method_def required_fields_def
    by (auto split: option.splits pyval.splits)
  then show ?thesis unfolding row_result_def by auto
qed

end
